theory Spec2Isabelle
  imports Main "HOL-Library.Sublist"
begin

section \<open>Rainbow Tree: focused paths and depth styles\<close>

text \<open>
  A shallow embedding of \<^verbatim>\<open>src/main.ts\<close>, the Obsidian plugin \<^verbatim>\<open>RainbowTreePlugin\<close>.
  The plugin keeps three fields (\<^verbatim>\<open>styleElement\<close>, \<^verbatim>\<open>focusedPaths\<close>, \<^verbatim>\<open>settings\<close>) and
  works on the page: the children of \<^verbatim>\<open>document.head\<close>, the class list and the inline
  style of \<^verbatim>\<open>document.body\<close>, and the elements carrying a \<^verbatim>\<open>data-path\<close> attribute.
  Every method becomes a function from the state before to the state after; what the
  host supplies on demand (the open leaves, the stored settings) is an argument.
  Types are the ones the TypeScript declares.
\<close>

subsection \<open>Settings\<close>

datatype LineStyle = Solid | Dashed | Dotted

fun lineStyle_text :: "LineStyle \<Rightarrow> string" where
  "lineStyle_text Solid = ''solid''"
| "lineStyle_text Dashed = ''dashed''"
| "lineStyle_text Dotted = ''dotted''"

record NFLSettings =
  colors :: "string list"
  unfocusedColor :: string
  enableFocus :: bool
  lineStyle :: LineStyle

definition DEFAULT_SETTINGS :: NFLSettings where
  "DEFAULT_SETTINGS =
     \<lparr>colors = [''#ff5252'', ''#f99d6c'', ''#53c169'', ''#747dfb'', ''#f098fb''],
      unfocusedColor = ''#999999'',
      enableFocus = True,
      lineStyle = Solid\<rparr>"

text \<open>
  What \<^verbatim>\<open>loadData()\<close> resolves to: \<^verbatim>\<open>null\<close> when nothing was saved, otherwise an
  object in which any field may be missing.
\<close>

record StoredData =
  stored_colors :: "string list option"
  stored_unfocusedColor :: "string option"
  stored_enableFocus :: "bool option"
  stored_lineStyle :: "LineStyle option"

text \<open>\<^verbatim>\<open>Object.assign({}, DEFAULT_SETTINGS, data)\<close>: a field of the data, when present, wins.\<close>

definition loadSettings :: "StoredData option \<Rightarrow> NFLSettings" where
  "loadSettings loaded =
     (case loaded of
        None \<Rightarrow> DEFAULT_SETTINGS
      | Some d \<Rightarrow>
          \<lparr>colors = (case stored_colors d of None \<Rightarrow> colors DEFAULT_SETTINGS | Some v \<Rightarrow> v),
           unfocusedColor =
             (case stored_unfocusedColor d of None \<Rightarrow> unfocusedColor DEFAULT_SETTINGS | Some v \<Rightarrow> v),
           enableFocus =
             (case stored_enableFocus d of None \<Rightarrow> enableFocus DEFAULT_SETTINGS | Some v \<Rightarrow> v),
           lineStyle =
             (case stored_lineStyle d of None \<Rightarrow> lineStyle DEFAULT_SETTINGS | Some v \<Rightarrow> v)\<rparr>)"

subsection \<open>The page\<close>

text \<open>
  A \<^verbatim>\<open>style\<close> element lives in a store of nodes and is known by its reference, so that
  the plugin's \<^verbatim>\<open>styleElement\<close> and the child of \<^verbatim>\<open>document.head\<close> are the same
  node. \<^verbatim>\<open>createElement\<close> takes the next unused reference.
\<close>

record StyleNode =
  elem_id :: string
  textContent :: string

record Element =
  data_path :: "string option"
  classList :: "string list"

record Document =
  head :: "nat list"
  nodes :: "nat \<Rightarrow> StyleNode"
  next_ref :: nat
  body :: Element
  body_style :: "string \<rightharpoonup> string"
  elements :: "Element list"

text \<open>
  \<^verbatim>\<open>DOMTokenList\<close>: \<^verbatim>\<open>toggle(token, force)\<close> adds the token when \<^verbatim>\<open>force\<close> is true
  (at the end, unless it is there already) and removes it when \<^verbatim>\<open>force\<close> is false;
  \<^verbatim>\<open>remove(token)\<close> removes it.
\<close>

definition classList_remove :: "string \<Rightarrow> string list \<Rightarrow> string list" where
  "classList_remove token xs = removeAll token xs"

definition classList_toggle :: "string \<Rightarrow> bool \<Rightarrow> string list \<Rightarrow> string list" where
  "classList_toggle token force xs =
     (if force then (if token \<in> set xs then xs else xs @ [token])
      else classList_remove token xs)"

text \<open>
  \<^verbatim>\<open>CSSStyleDeclaration.setProperty(name, value)\<close>: the empty value removes the
  property, any other value (taken to parse as a value of a custom property, as a
  colour does) is stored under the name.
\<close>

definition setProperty :: "string \<Rightarrow> string \<Rightarrow> (string \<rightharpoonup> string) \<Rightarrow> (string \<rightharpoonup> string)" where
  "setProperty name v style = (if v = [] then style(name := None) else style(name \<mapsto> v))"

subsection \<open>The workspace\<close>

record TFile =
  path :: string

text \<open>
  A leaf's view is a \<^verbatim>\<open>MarkdownView\<close>, whose \<^verbatim>\<open>file\<close> is a \<^verbatim>\<open>TFile\<close> or
  \<^verbatim>\<open>null\<close>, or some other view.
\<close>

datatype View = MarkdownView "TFile option" | OtherView

record WorkspaceLeaf =
  view :: View

subsection \<open>The plugin\<close>

record State =
  doc :: Document
  styleElement :: nat
  focusedPaths :: "string set"
  settings :: NFLSettings

definition focus_class :: string where
  "focus_class = ''plugin-nested-folder-lines-focus''"

definition unfocused_property :: string where
  "unfocused_property = ''--nfl-unfocused-color''"

subsubsection \<open>JavaScript strings and arrays\<close>

text \<open>
  \<^verbatim>\<open>s.split(sep)\<close> for a separator of one character: a scan that closes the current
  segment at every separator. A \<open>char\<close> stands for one code unit of the string. The
  result is never empty: \<^verbatim>\<open>''.split('/')\<close> is \<^verbatim>\<open>['']\<close>.
\<close>

fun split_from :: "char \<Rightarrow> string \<Rightarrow> string \<Rightarrow> string list" where
  "split_from sep cur [] = [cur]"
| "split_from sep cur (c # cs) =
     (if c = sep then cur # split_from sep [] cs else split_from sep (cur @ [c]) cs)"

definition js_split :: "string \<Rightarrow> char \<Rightarrow> string list" where
  "js_split s sep = split_from sep [] s"

definition js_repeat :: "string \<Rightarrow> nat \<Rightarrow> string" where
  "js_repeat s n = concat (replicate n s)"

text \<open>\<^verbatim>\<open>i % n\<close> on non-negative integers; \<^verbatim>\<open>NaN\<close> (the result for \<^verbatim>\<open>n = 0\<close>) is \<open>None\<close>.\<close>

definition js_rem :: "nat \<Rightarrow> nat \<Rightarrow> nat option" where
  "js_rem i n = (if n = 0 then None else Some (i mod n))"

text \<open>\<^verbatim>\<open>xs[k]\<close>: \<^verbatim>\<open>undefined\<close> (\<open>None\<close>) for \<^verbatim>\<open>NaN\<close> and for an index out of range.\<close>

definition js_index :: "'a list \<Rightarrow> nat option \<Rightarrow> 'a option" where
  "js_index xs k =
     (case k of None \<Rightarrow> None | Some j \<Rightarrow> if j < length xs then Some (xs ! j) else None)"

text \<open>A string or \<^verbatim>\<open>undefined\<close> inside a template literal.\<close>

definition template_text :: "string option \<Rightarrow> string" where
  "template_text v = (case v of None \<Rightarrow> ''undefined'' | Some s \<Rightarrow> s)"

text \<open>\<^verbatim>\<open>v || ''\<close> for a string or \<^verbatim>\<open>null\<close>: the empty string is falsy as well.\<close>

definition or_empty :: "string option \<Rightarrow> string" where
  "or_empty v = (case v of None \<Rightarrow> [] | Some s \<Rightarrow> if s = [] then [] else s)"

subsubsection \<open>\<^verbatim>\<open>updateFocusStyles\<close>\<close>

definition mark_focused :: "string set \<Rightarrow> Element \<Rightarrow> Element" where
  "mark_focused fp el =
     el\<lparr>classList := classList_toggle ''focused'' (or_empty (data_path el) \<in> fp) (classList el)\<rparr>"

text \<open>
  \<^verbatim>\<open>querySelectorAll('[data-path]')\<close> followed by \<^verbatim>\<open>forEach\<close>: the callback runs on
  the elements that have the attribute, and on no other.
\<close>

definition forEach_data_path :: "(Element \<Rightarrow> Element) \<Rightarrow> Element \<Rightarrow> Element" where
  "forEach_data_path f el = (if data_path el \<noteq> None then f el else el)"

definition updateFocusStyles :: "State \<Rightarrow> State" where
  "updateFocusStyles st =
     (let d = doc st;
          body1 = (body d)\<lparr>classList :=
                     classList_toggle focus_class (enableFocus (settings st)) (classList (body d))\<rparr>;
          d1 = d\<lparr>body := body1\<rparr>;
          d2 = d1\<lparr>body := forEach_data_path (mark_focused (focusedPaths st)) (body d1),
                  elements := map (forEach_data_path (mark_focused (focusedPaths st))) (elements d1)\<rparr>
      in st\<lparr>doc := d2\<rparr>)"

subsubsection \<open>\<^verbatim>\<open>updateFocusedPaths\<close>\<close>

text \<open>
  One round of the inner loop, at index \<open>i\<close>: the state is \<^verbatim>\<open>currentPath\<close> and the set.
\<close>

definition prefix_step :: "string list \<Rightarrow> nat \<Rightarrow> string \<times> string set \<Rightarrow> string \<times> string set" where
  "prefix_step pathSegments i = (\<lambda>(currentPath, fp).
     let currentPath' = currentPath @ (if i > 0 then ''/'' else []) @ pathSegments ! i
     in (currentPath', insert currentPath' fp))"

text \<open>
  The body of the outer loop. The index of the inner loop stays below
  \<^verbatim>\<open>pathSegments.length - 1\<close>, so every read of \<^verbatim>\<open>pathSegments[i]\<close> is in range.
\<close>

definition add_leaf :: "WorkspaceLeaf \<Rightarrow> string set \<Rightarrow> string set" where
  "add_leaf leaf fp =
     (case (case view leaf of MarkdownView f \<Rightarrow> f | OtherView \<Rightarrow> None) of
        None \<Rightarrow> fp
      | Some file \<Rightarrow>
          (let filePath = path file;
               fp1 = insert filePath fp;
               pathSegments = js_split filePath (CHR ''/'')
           in snd (fold (prefix_step pathSegments) [0 ..< length pathSegments - 1] ([], fp1))))"

definition updateFocusedPaths :: "WorkspaceLeaf list \<Rightarrow> State \<Rightarrow> State" where
  "updateFocusedPaths openLeaves st =
     (let st1 = st\<lparr>focusedPaths := {}\<rparr>;
          st2 = st1\<lparr>focusedPaths := fold add_leaf openLeaves (focusedPaths st1)\<rparr>
      in updateFocusStyles st2)"

subsubsection \<open>\<^verbatim>\<open>updateBaseStyles\<close>\<close>

definition newline :: string where
  "newline = [CHR 0x0A]"

text \<open>The template literal appended in round \<open>i\<close> of the loop.\<close>

definition depth_rule :: "NFLSettings \<Rightarrow> nat \<Rightarrow> string" where
  "depth_rule s i =
     (let colorIndex = js_rem i (length (colors s));
          nestedSelectors = js_repeat ''.nav-folder-children '' i;
          color = js_index (colors s) colorIndex
      in newline @ ''                '' @ nestedSelectors @ ''.nav-folder-children::before {''
         @ newline @ ''                    '' @ ''border-left: 1px '' @ lineStyle_text (lineStyle s)
         @ '' '' @ template_text color @ '';''
         @ newline @ ''                '' @ ''}''
         @ newline @ ''            '')"

definition maxLevels :: nat where
  "maxLevels = 10"

definition updateBaseStyles :: "State \<Rightarrow> State" where
  "updateBaseStyles st =
     (let d = doc st;
          d1 = d\<lparr>body_style :=
                  setProperty unfocused_property (unfocusedColor (settings st)) (body_style d)\<rparr>;
          baseStyles = fold (\<lambda>i acc. acc @ depth_rule (settings st) i) [0 ..< maxLevels] [];
          d2 = d1\<lparr>nodes := (nodes d1)(styleElement st :=
                  (nodes d1 (styleElement st))\<lparr>textContent := baseStyles\<rparr>)\<rparr>
      in st\<lparr>doc := d2\<rparr>)"

text \<open>The text of the plugin's own style element.\<close>

definition stylesheet :: "State \<Rightarrow> string" where
  "stylesheet st = textContent (nodes (doc st) (styleElement st))"

subsubsection \<open>Life cycle and events\<close>

text \<open>
  \<^verbatim>\<open>onload\<close>: the settings are loaded, a fresh \<^verbatim>\<open>style\<close> element gets its id and is
  appended to the head, then the base styles and the focused paths are computed. The
  settings tab and the event registrations change nothing on the page.
\<close>

definition onload :: "StoredData option \<Rightarrow> WorkspaceLeaf list \<Rightarrow> Document \<Rightarrow> State" where
  "onload loaded openLeaves d =
     (let s = loadSettings loaded;
          r = next_ref d;
          d1 = d\<lparr>nodes := (nodes d)(r := \<lparr>elem_id = [], textContent = []\<rparr>), next_ref := Suc r\<rparr>;
          d2 = d1\<lparr>nodes := (nodes d1)(r := (nodes d1 r)\<lparr>elem_id := ''nested-folder-lines-styles''\<rparr>)\<rparr>;
          d3 = d2\<lparr>head := head d2 @ [r]\<rparr>;
          st = \<lparr>doc = d3, styleElement = r, focusedPaths = {}, settings = s\<rparr>
      in updateFocusedPaths openLeaves (updateBaseStyles st))"

text \<open>\<^verbatim>\<open>onunload\<close>: \<^verbatim>\<open>remove()\<close> takes the style element out of its parent's children.\<close>

definition onunload :: "State \<Rightarrow> State" where
  "onunload st =
     (let d = doc st;
          d1 = d\<lparr>head := removeAll (styleElement st) (head d)\<rparr>;
          d2 = d1\<lparr>body := (body d1)\<lparr>classList := classList_remove focus_class (classList (body d1))\<rparr>\<rparr>
      in st\<lparr>doc := d2\<rparr>)"

text \<open>
  \<^verbatim>\<open>saveSettings\<close>, after the settings tab has changed a field; writing the settings
  to disk leaves the page and the plugin's fields alone.
\<close>

definition saveSettings :: "WorkspaceLeaf list \<Rightarrow> State \<Rightarrow> State" where
  "saveSettings openLeaves st = updateFocusedPaths openLeaves (updateBaseStyles st)"

text \<open>
  The two workspace events the plugin registers for. \<^verbatim>\<open>file-open\<close> carries the file
  or \<^verbatim>\<open>null\<close>, and resolves only when there is a file.
\<close>

datatype Event = FileOpen "TFile option" | LayoutChange

fun handle_event :: "Event \<Rightarrow> WorkspaceLeaf list \<Rightarrow> State \<Rightarrow> State" where
  "handle_event (FileOpen file) openLeaves st =
     (if file \<noteq> None then updateFocusedPaths openLeaves st else st)"
| "handle_event LayoutChange openLeaves st = updateFocusedPaths openLeaves st"

subsection \<open>The specification's vocabulary\<close>

text \<open>
  The specification speaks of open identifiers, of the segments of an identifier and of
  its proper ancestor prefixes: segment 0; segments 0 to 1; and so on, up to but
  excluding the last segment, each joined with the separator again.
\<close>

fun join_slash :: "string list \<Rightarrow> string" where
  "join_slash [] = []"
| "join_slash [s] = s"
| "join_slash (s # t # ss) = s @ ''/'' @ join_slash (t # ss)"

definition proper_ancestor_prefixes :: "string \<Rightarrow> string set" where
  "proper_ancestor_prefixes p =
     (\<lambda>k. join_slash (take k (js_split p (CHR ''/'')))) ` {1 ..< length (js_split p (CHR ''/''))}"

definition open_identifiers :: "WorkspaceLeaf list \<Rightarrow> string list" where
  "open_identifiers openLeaves =
     concat (map (\<lambda>leaf. case view leaf of MarkdownView (Some tf) \<Rightarrow> [path tf] | _ \<Rightarrow> []) openLeaves)"

definition resolve :: "string list \<Rightarrow> string set" where
  "resolve ids = (\<Union>p \<in> set ids. insert p (proper_ancestor_prefixes p))"

text \<open>
  The layout of one rule of the style sheet, with its selector and its declaration; the
  selector for a children container nested \<open>i\<close> levels deep; the border declaration.
\<close>

definition nested_selector :: "nat \<Rightarrow> string" where
  "nested_selector i =
     concat (replicate i ''.nav-folder-children '') @ ''.nav-folder-children::before''"

definition border_declaration :: "string \<Rightarrow> string \<Rightarrow> string" where
  "border_declaration style color = ''border-left: 1px '' @ style @ '' '' @ color"

definition css_rule :: "string \<Rightarrow> string \<Rightarrow> string" where
  "css_rule selector declaration =
     newline @ ''                '' @ selector @ '' {''
     @ newline @ ''                    '' @ declaration @ '';''
     @ newline @ ''                '' @ ''}''
     @ newline @ ''            ''"

subsection \<open>Sample states\<close>

text \<open>An empty page, and the plugin with the default settings on it.\<close>

definition page0 :: Document where
  "page0 = \<lparr>head = [], nodes = (\<lambda>r. \<lparr>elem_id = [], textContent = []\<rparr>), next_ref = 0,
            body = \<lparr>data_path = None, classList = []\<rparr>, body_style = Map.empty, elements = []\<rparr>"

definition state0 :: State where
  "state0 = \<lparr>doc = page0, styleElement = 0, focusedPaths = {}, settings = DEFAULT_SETTINGS\<rparr>"

definition page1 :: Document where
  "page1 = page0\<lparr>elements :=
     [\<lparr>data_path = Some ''A'', classList = [''nav-folder'']\<rparr>,
      \<lparr>data_path = Some ''Z'', classList = [''focused'']\<rparr>,
      \<lparr>data_path = None, classList = [''focused'']\<rparr>]\<rparr>"

definition state1 :: State where
  "state1 = \<lparr>doc = page1, styleElement = 0, focusedPaths = {''A/B'', ''A''},
             settings = DEFAULT_SETTINGS\<rparr>"

definition state_two_colors :: State where
  "state_two_colors = state0\<lparr>settings := DEFAULT_SETTINGS\<lparr>colors := [''#111'', ''#222'']\<rparr>\<rparr>"

definition state_no_colors :: State where
  "state_no_colors = state0\<lparr>settings := DEFAULT_SETTINGS\<lparr>colors := []\<rparr>\<rparr>"

definition leaf_A_B :: WorkspaceLeaf where
  "leaf_A_B = \<lparr>view = MarkdownView (Some \<lparr>path = ''A/B''\<rparr>)\<rparr>"

section \<open>The focused set\<close>

lemma join_slash_snoc:
  "join_slash (xs @ [x]) = (if xs = [] then x else join_slash xs @ ''/'' @ x)"
  by (induction xs rule: join_slash.induct) auto

lemma join_slash_take_Suc:
  assumes "i < length segs"
  shows "join_slash (take (Suc i) segs) =
           join_slash (take i segs) @ (if i > 0 then ''/'' else []) @ segs ! i"
  using assms by (auto simp add: take_Suc_conv_app_nth join_slash_snoc)

lemma fold_prefix_step:
  assumes "n \<le> length segs"
  shows "fold (prefix_step segs) [0 ..< n] ([], fp) =
           (join_slash (take n segs), fp \<union> (\<lambda>k. join_slash (take k segs)) ` {1 ..< Suc n})"
  using assms
proof (induction n)
  case 0
  then show ?case by simp
next
  case (Suc n)
  then have n: "n < length segs" by simp
  define nxt where "nxt = join_slash (take n segs) @ (if n > 0 then ''/'' else []) @ segs ! n"
  have step: "join_slash (take (Suc n) segs) = nxt"
    unfolding nxt_def using n by (rule join_slash_take_Suc)
  have range: "{1 ..< Suc (Suc n)} = insert (Suc n) {1 ..< Suc n}" by auto
  have "fold (prefix_step segs) [0 ..< Suc n] ([], fp) =
          prefix_step segs n (fold (prefix_step segs) [0 ..< n] ([], fp))"
    by simp
  also have "\<dots> = prefix_step segs n
          (join_slash (take n segs), fp \<union> (\<lambda>k. join_slash (take k segs)) ` {1 ..< Suc n})"
    using Suc by simp
  also have "\<dots> = (nxt, insert nxt (fp \<union> (\<lambda>k. join_slash (take k segs)) ` {1 ..< Suc n}))"
    by (simp add: prefix_step_def Let_def nxt_def)
  also have "\<dots> = (join_slash (take (Suc n) segs),
          fp \<union> (\<lambda>k. join_slash (take k segs)) ` {1 ..< Suc (Suc n)})"
    unfolding range image_insert step by simp
  finally show ?case .
qed

lemma split_from_nonempty: "split_from sep cur s \<noteq> []"
  by (induction s arbitrary: cur) auto

lemma length_js_split: "0 < length (js_split s sep)"
  by (simp add: js_split_def split_from_nonempty)

lemma add_leaf_file:
  "add_leaf \<lparr>view = MarkdownView (Some tf)\<rparr> fp = fp \<union> insert (path tf) (proper_ancestor_prefixes (path tf))"
proof -
  let ?segs = "js_split (path tf) (CHR ''/'')"
  have "length ?segs - 1 \<le> length ?segs" by simp
  from fold_prefix_step [OF this]
  have "snd (fold (prefix_step ?segs) [0 ..< length ?segs - 1] ([], insert (path tf) fp)) =
          insert (path tf) fp \<union> (\<lambda>k. join_slash (take k ?segs)) ` {1 ..< Suc (length ?segs - 1)}"
    by simp
  moreover have "Suc (length ?segs - 1) = length ?segs"
    using length_js_split [of "path tf" "CHR ''/''"] by simp
  ultimately show ?thesis
    by (simp add: add_leaf_def Let_def proper_ancestor_prefixes_def)
qed

lemma add_leaf_union:
  "add_leaf leaf fp = fp \<union> resolve (open_identifiers [leaf])"
proof (cases "view leaf")
  case (MarkdownView f)
  show ?thesis
  proof (cases f)
    case None
    with MarkdownView show ?thesis
      by (simp add: add_leaf_def resolve_def open_identifiers_def)
  next
    case (Some tf)
    have "leaf = \<lparr>view = MarkdownView (Some tf)\<rparr>"
      using MarkdownView Some by (cases leaf) simp
    then show ?thesis
      using add_leaf_file [of tf fp]
      by (simp add: resolve_def open_identifiers_def)
  qed
next
  case OtherView
  then show ?thesis
    by (simp add: add_leaf_def resolve_def open_identifiers_def)
qed

lemma open_identifiers_Cons:
  "open_identifiers (leaf # ls) = open_identifiers [leaf] @ open_identifiers ls"
  by (simp add: open_identifiers_def)

lemma open_identifiers_files:
  "open_identifiers (map (\<lambda>p. \<lparr>view = MarkdownView (Some \<lparr>path = p\<rparr>)\<rparr>) ids) = ids"
  by (induction ids) (simp_all add: open_identifiers_def)

lemma resolve_append: "resolve (xs @ ys) = resolve xs \<union> resolve ys"
  by (simp add: resolve_def)

lemma fold_add_leaf:
  "fold add_leaf openLeaves fp = fp \<union> resolve (open_identifiers openLeaves)"
proof (induction openLeaves arbitrary: fp)
  case Nil
  then show ?case by (simp add: resolve_def open_identifiers_def)
next
  case (Cons leaf ls)
  have "fold add_leaf (leaf # ls) fp = fold add_leaf ls (add_leaf leaf fp)" by simp
  also have "\<dots> = add_leaf leaf fp \<union> resolve (open_identifiers ls)" by (rule Cons.IH)
  also have "\<dots> = fp \<union> resolve (open_identifiers (leaf # ls))"
    by (subst open_identifiers_Cons [of leaf ls]) (simp add: add_leaf_union resolve_append Un_assoc)
  finally show ?case .
qed

lemma focusedPaths_updateFocusStyles: "focusedPaths (updateFocusStyles st) = focusedPaths st"
  by (simp add: updateFocusStyles_def Let_def)

lemma focusedPaths_updateFocusedPaths:
  "focusedPaths (updateFocusedPaths openLeaves st) = fold add_leaf openLeaves {}"
  by (simp add: updateFocusedPaths_def Let_def focusedPaths_updateFocusStyles)

lemma split_from_no_sep: "sep \<notin> set s \<Longrightarrow> split_from sep cur s = [cur @ s]"
  by (induction s arbitrary: cur) auto

lemma proper_ancestor_prefixes_no_sep:
  "CHR ''/'' \<notin> set p \<Longrightarrow> proper_ancestor_prefixes p = {}"
  by (simp add: proper_ancestor_prefixes_def js_split_def split_from_no_sep)

lemma split_from_append_sep:
  "split_from sep cur (q @ sep # r) = split_from sep cur q @ split_from sep [] r"
  by (induction q arbitrary: cur) auto

lemma join_slash_Cons:
  "rest \<noteq> [] \<Longrightarrow> join_slash (s # rest) = s @ ''/'' @ join_slash rest"
  by (cases rest) auto

lemma join_slash_split_from: "join_slash (split_from (CHR ''/'') cur s) = cur @ s"
proof (induction s arbitrary: cur)
  case Nil
  then show ?case by simp
next
  case (Cons c cs)
  show ?case
  proof (cases "c = CHR ''/''")
    case True
    then show ?thesis
      using Cons.IH [of "[]"] by (simp add: join_slash_Cons split_from_nonempty)
  next
    case False
    then show ?thesis
      using Cons.IH [of "cur @ [c]"] by simp
  qed
qed

lemma join_slash_js_split: "join_slash (js_split s (CHR ''/'')) = s"
  by (simp add: js_split_def join_slash_split_from)

lemma join_slash_append:
  "xs \<noteq> [] \<Longrightarrow> ys \<noteq> [] \<Longrightarrow> join_slash (xs @ ys) = join_slash xs @ ''/'' @ join_slash ys"
proof (induction xs rule: join_slash.induct)
  case 1
  then show ?case by simp
next
  case (2 s)
  then show ?case by (simp add: join_slash_Cons)
next
  case (3 s t ss)
  then show ?case by simp
qed

lemma proper_ancestor_prefixes_iff:
  "q \<in> proper_ancestor_prefixes p \<longleftrightarrow> (\<exists>r. p = q @ ''/'' @ r)"
proof
  let ?segs = "js_split p (CHR ''/'')"
  assume "q \<in> proper_ancestor_prefixes p"
  then obtain k where k: "1 \<le> k" "k < length ?segs" and q: "q = join_slash (take k ?segs)"
    by (auto simp: proper_ancestor_prefixes_def)
  from k have "take k ?segs \<noteq> []" "drop k ?segs \<noteq> []" by auto
  then have "join_slash (take k ?segs @ drop k ?segs) =
               join_slash (take k ?segs) @ ''/'' @ join_slash (drop k ?segs)"
    by (rule join_slash_append)
  then have "p = q @ ''/'' @ join_slash (drop k ?segs)"
    using q by (simp add: join_slash_js_split)
  then show "\<exists>r. p = q @ ''/'' @ r" ..
next
  assume "\<exists>r. p = q @ ''/'' @ r"
  then obtain r where p: "p = q @ CHR ''/'' # r" by auto
  let ?k = "length (js_split q (CHR ''/''))"
  have segs: "js_split p (CHR ''/'') = js_split q (CHR ''/'') @ js_split r (CHR ''/'')"
    unfolding p js_split_def by (rule split_from_append_sep)
  have k: "?k \<in> {1 ..< length (js_split p (CHR ''/''))}"
    using length_js_split [of q "CHR ''/''"] length_js_split [of r "CHR ''/''"]
    by (simp add: segs Suc_le_eq)
  have "join_slash (take ?k (js_split p (CHR ''/''))) = q"
    by (simp add: segs join_slash_js_split)
  with imageI [OF k, of "\<lambda>k. join_slash (take k (js_split p (CHR ''/'')))"]
  show "q \<in> proper_ancestor_prefixes p"
    unfolding proper_ancestor_prefixes_def by simp
qed

text \<open>
  C1. For every sequence of open leaves, \<^verbatim>\<open>updateFocusedPaths\<close> leaves in
  \<^verbatim>\<open>focusedPaths\<close> exactly the open identifiers and their proper ancestor prefixes,
  and nothing else. No open leaf gives the empty set, and one identifier without a
  separator gives that identifier alone.
\<close>

theorem updateFocusedPaths_resolve:
  "focusedPaths (updateFocusedPaths openLeaves st) =
     (\<Union>p \<in> set (open_identifiers openLeaves). insert p (proper_ancestor_prefixes p))
   \<and> focusedPaths (updateFocusedPaths [] st) = {}
   \<and> (CHR ''/'' \<notin> set p \<longrightarrow>
        focusedPaths (updateFocusedPaths [\<lparr>view = MarkdownView (Some \<lparr>path = p\<rparr>)\<rparr>] st) = {p})"
proof (intro conjI impI)
  show "focusedPaths (updateFocusedPaths openLeaves st) =
     (\<Union>p \<in> set (open_identifiers openLeaves). insert p (proper_ancestor_prefixes p))"
    using fold_add_leaf [of openLeaves "{}"]
    by (simp add: focusedPaths_updateFocusedPaths resolve_def)
  show "focusedPaths (updateFocusedPaths [] st) = {}"
    by (simp add: focusedPaths_updateFocusedPaths)
  assume "CHR ''/'' \<notin> set p"
  then show "focusedPaths (updateFocusedPaths [\<lparr>view = MarkdownView (Some \<lparr>path = p\<rparr>)\<rparr>] st) = {p}"
    by (simp add: focusedPaths_updateFocusedPaths add_leaf_file proper_ancestor_prefixes_no_sep)
qed

lemma js_split_ABC: "js_split ''A/B/C'' (CHR ''/'') = [''A'', ''B'', ''C'']"
  by (simp add: js_split_def)



lemma upt_1_3: "{Suc 0 ..< Suc (Suc (Suc 0))} = {Suc 0, Suc (Suc 0)}"
  by auto

theorem updateFocusedPaths_resolve_witness:
  "focusedPaths (updateFocusedPaths [\<lparr>view = MarkdownView (Some \<lparr>path = ''A/B/C''\<rparr>)\<rparr>] state0) =
     {''A/B/C'', ''A'', ''A/B''}
   \<and> CHR ''/'' \<notin> set ''A''
   \<and> focusedPaths (updateFocusedPaths [\<lparr>view = MarkdownView (Some \<lparr>path = ''A''\<rparr>)\<rparr>] state0) = {''A''}"
  using updateFocusedPaths_resolve
          [of "[\<lparr>view = MarkdownView (Some \<lparr>path = ''A/B/C''\<rparr>)\<rparr>]" state0 "''A''"]
  by (simp add: open_identifiers_def proper_ancestor_prefixes_def js_split_ABC upt_1_3)

lemma open_identifiers_member:
  "leaf \<in> set openLeaves \<Longrightarrow> view leaf = MarkdownView (Some tf) \<Longrightarrow>
     path tf \<in> set (open_identifiers openLeaves)"
  by (force simp: open_identifiers_def)

lemma js_split_slash_A_B: "js_split ''/A/B'' (CHR ''/'') = [[], ''A'', ''B'']"
  by (simp add: js_split_def)

text \<open>
  C10. An open identifier that begins with the separator has an empty first segment, so
  the empty string enters \<^verbatim>\<open>focusedPaths\<close>; for the single open identifier
  \<^verbatim>\<open>/A/B\<close> the set is the identifier, the empty string and \<^verbatim>\<open>/A\<close>.
\<close>

theorem updateFocusedPaths_leading_separator:
  "(\<lparr>view = MarkdownView (Some \<lparr>path = CHR ''/'' # rest\<rparr>)\<rparr> \<in> set openLeaves \<longrightarrow>
      [] \<in> focusedPaths (updateFocusedPaths openLeaves st))
   \<and> focusedPaths (updateFocusedPaths [\<lparr>view = MarkdownView (Some \<lparr>path = ''/A/B''\<rparr>)\<rparr>] st) =
       {''/A/B'', [], ''/A''}"
proof (intro conjI impI)
  assume "\<lparr>view = MarkdownView (Some \<lparr>path = CHR ''/'' # rest\<rparr>)\<rparr> \<in> set openLeaves"
  then have "CHR ''/'' # rest \<in> set (open_identifiers openLeaves)"
    using open_identifiers_member [of _ openLeaves "\<lparr>path = CHR ''/'' # rest\<rparr>"] by force
  moreover have "[] \<in> proper_ancestor_prefixes (CHR ''/'' # rest)"
    by (simp add: proper_ancestor_prefixes_iff)
  ultimately have "[] \<in> resolve (open_identifiers openLeaves)"
    unfolding resolve_def by blast
  then show "[] \<in> focusedPaths (updateFocusedPaths openLeaves st)"
    by (simp add: focusedPaths_updateFocusedPaths fold_add_leaf)
next
  show "focusedPaths (updateFocusedPaths [\<lparr>view = MarkdownView (Some \<lparr>path = ''/A/B''\<rparr>)\<rparr>] st) =
       {''/A/B'', [], ''/A''}"
    by (simp add: focusedPaths_updateFocusedPaths add_leaf_file proper_ancestor_prefixes_def
        js_split_slash_A_B upt_1_3)
qed

theorem updateFocusedPaths_leading_separator_witness:
  "\<lparr>view = MarkdownView (Some \<lparr>path = ''/A''\<rparr>)\<rparr>
      \<in> set [\<lparr>view = OtherView\<rparr>, \<lparr>view = MarkdownView (Some \<lparr>path = ''/A''\<rparr>)\<rparr>]
   \<and> [] \<in> focusedPaths (updateFocusedPaths
        [\<lparr>view = OtherView\<rparr>, \<lparr>view = MarkdownView (Some \<lparr>path = ''/A''\<rparr>)\<rparr>] state0)"
  using updateFocusedPaths_leading_separator
          [of "''A''" "[\<lparr>view = OtherView\<rparr>, \<lparr>view = MarkdownView (Some \<lparr>path = ''/A''\<rparr>)\<rparr>]" state0]
  by simp

text \<open>
  C6, as stated, fails: the set is not kept free of stale entries across every signal.
  The \<^verbatim>\<open>file-open\<close> handler resolves only when it is given a file. After an
  activation with \<^verbatim>\<open>A/B\<close> open, a \<^verbatim>\<open>file-open\<close> signal with \<^verbatim>\<open>null\<close> that
  arrives when no leaf is open any more leaves \<^verbatim>\<open>A/B\<close> and \<^verbatim>\<open>A\<close> in the set.
\<close>

theorem handle_event_stale_counterexample:
  "open_identifiers [] = []
   \<and> focusedPaths (handle_event (FileOpen None) [] (onload None [leaf_A_B] page0)) =
       {''A/B'', ''A''}"
proof (intro conjI)
  show "open_identifiers [] = []"
    by (simp add: open_identifiers_def)
  have "focusedPaths (onload None [leaf_A_B] page0) = {''A/B'', ''A''}"
    by (simp add: onload_def Let_def focusedPaths_updateFocusedPaths leaf_A_B_def add_leaf_file
        proper_ancestor_prefixes_def js_split_def)
  then show "focusedPaths (handle_event (FileOpen None) [] (onload None [leaf_A_B] page0)) =
       {''A/B'', ''A''}"
    by simp
qed

text \<open>
  C6, amended. Every run of \<^verbatim>\<open>updateFocusedPaths\<close> rebuilds the set from scratch: what
  the set held before has no influence on the result, and every entry afterwards is a
  currently open identifier or an ancestor of one, so nothing of a leaf that is no
  longer open stays. The \<^verbatim>\<open>layout-change\<close> signal and the \<^verbatim>\<open>file-open\<close> signal
  with a file are exactly this resolution; the \<^verbatim>\<open>file-open\<close> signal with
  \<^verbatim>\<open>null\<close> changes nothing, so the set stays as the last resolution left it.
\<close>

theorem updateFocusedPaths_from_scratch:
  "focusedPaths (updateFocusedPaths openLeaves (st\<lparr>focusedPaths := stale\<rparr>)) =
     focusedPaths (updateFocusedPaths openLeaves st)
   \<and> (\<forall>q \<in> focusedPaths (updateFocusedPaths openLeaves (st\<lparr>focusedPaths := stale\<rparr>)).
         \<exists>p \<in> set (open_identifiers openLeaves). q = p \<or> (\<exists>r. p = q @ ''/'' @ r))
   \<and> handle_event LayoutChange openLeaves st = updateFocusedPaths openLeaves st
   \<and> handle_event (FileOpen (Some tf)) openLeaves st = updateFocusedPaths openLeaves st
   \<and> handle_event (FileOpen None) openLeaves st = st"
proof (intro conjI ballI)
  show "focusedPaths (updateFocusedPaths openLeaves (st\<lparr>focusedPaths := stale\<rparr>)) =
     focusedPaths (updateFocusedPaths openLeaves st)"
    by (simp add: focusedPaths_updateFocusedPaths)
next
  fix q
  assume "q \<in> focusedPaths (updateFocusedPaths openLeaves (st\<lparr>focusedPaths := stale\<rparr>))"
  then have "q \<in> resolve (open_identifiers openLeaves)"
    by (simp add: focusedPaths_updateFocusedPaths fold_add_leaf)
  then obtain p where "p \<in> set (open_identifiers openLeaves)"
    and "q = p \<or> q \<in> proper_ancestor_prefixes p"
    unfolding resolve_def by blast
  then show "\<exists>p \<in> set (open_identifiers openLeaves). q = p \<or> (\<exists>r. p = q @ ''/'' @ r)"
    unfolding proper_ancestor_prefixes_iff by blast
qed simp_all

theorem updateFocusedPaths_from_scratch_witness:
  "''A/B'' \<in> focusedPaths (updateFocusedPaths [\<lparr>view = MarkdownView (Some \<lparr>path = ''A/B/C''\<rparr>)\<rparr>]
       (state0\<lparr>focusedPaths := {''X/Y'', ''X''}\<rparr>))
   \<and> (\<exists>p \<in> set (open_identifiers [\<lparr>view = MarkdownView (Some \<lparr>path = ''A/B/C''\<rparr>)\<rparr>]).
         ''A/B'' = p \<or> (\<exists>r. p = ''A/B'' @ ''/'' @ r))
   \<and> ''X'' \<notin> focusedPaths (updateFocusedPaths [\<lparr>view = MarkdownView (Some \<lparr>path = ''A/B/C''\<rparr>)\<rparr>]
       (state0\<lparr>focusedPaths := {''X/Y'', ''X''}\<rparr>))
   \<and> handle_event LayoutChange [\<lparr>view = MarkdownView (Some \<lparr>path = ''A/B/C''\<rparr>)\<rparr>] state0 =
       updateFocusedPaths [\<lparr>view = MarkdownView (Some \<lparr>path = ''A/B/C''\<rparr>)\<rparr>] state0
   \<and> handle_event (FileOpen None) [\<lparr>view = MarkdownView (Some \<lparr>path = ''A/B/C''\<rparr>)\<rparr>] state0 =
       state0"
proof -
  let ?leaves = "[\<lparr>view = MarkdownView (Some \<lparr>path = ''A/B/C''\<rparr>)\<rparr>]"
  let ?st = "state0\<lparr>focusedPaths := {''X/Y'', ''X''}\<rparr>"
  note scratch = updateFocusedPaths_from_scratch
    [where openLeaves = ?leaves and st = state0 and stale = "{''X/Y'', ''X''}"]
  have ids: "open_identifiers ?leaves = [''A/B/C'']"
    by (simp add: open_identifiers_def)
  have mem: "''A/B'' \<in> focusedPaths (updateFocusedPaths ?leaves ?st)"
    by (simp add: focusedPaths_updateFocusedPaths add_leaf_file proper_ancestor_prefixes_def
        js_split_ABC upt_1_3)
  from scratch mem
  have anc: "\<exists>p \<in> set (open_identifiers ?leaves). ''A/B'' = p \<or> (\<exists>r. p = ''A/B'' @ ''/'' @ r)"
    by blast
  have fresh: "''X'' \<notin> focusedPaths (updateFocusedPaths ?leaves ?st)"
  proof
    assume "''X'' \<in> focusedPaths (updateFocusedPaths ?leaves ?st)"
    with scratch
    have "\<exists>p \<in> set (open_identifiers ?leaves). ''X'' = p \<or> (\<exists>r. p = ''X'' @ ''/'' @ r)"
      by blast
    then show False by (simp add: ids)
  qed
  from scratch
  have "handle_event LayoutChange ?leaves state0 = updateFocusedPaths ?leaves state0"
    and "handle_event (FileOpen None) ?leaves state0 = state0"
    by blast+
  with mem anc fresh show ?thesis by blast
qed

section \<open>Focus classes\<close>

lemma classList_toggle_member:
  "token \<in> set (classList_toggle token force xs) \<longleftrightarrow> force"
  by (simp add: classList_toggle_def classList_remove_def)

lemma classList_toggle_other:
  "other \<noteq> token \<Longrightarrow>
     other \<in> set (classList_toggle token force xs) \<longleftrightarrow> other \<in> set xs"
  by (auto simp: classList_toggle_def classList_remove_def)

lemma classList_toggle_idem:
  "classList_toggle token force (classList_toggle token force xs) = classList_toggle token force xs"
  by (simp add: classList_toggle_def classList_remove_def)

lemma classList_toggle_absorb:
  assumes "a \<noteq> b"
  shows "classList_toggle a fa (classList_toggle b fb (classList_toggle a fa xs)) =
           classList_toggle b fb (classList_toggle a fa xs)"
proof (cases fa)
  case True
  have "a \<in> set (classList_toggle b fb (classList_toggle a True xs))"
    using assms by (simp add: classList_toggle_other classList_toggle_member)
  with True show ?thesis by (simp add: classList_toggle_def [of a])
next
  case False
  have "a \<notin> set (classList_toggle b fb (classList_toggle a False xs))"
    using assms by (simp add: classList_toggle_other classList_toggle_member)
  with False show ?thesis by (simp add: classList_toggle_def [of a] classList_remove_def)
qed

lemma focus_class_not_focused: "focus_class \<noteq> ''focused''"
  by (simp add: focus_class_def)

lemma data_path_mark: "data_path (forEach_data_path (mark_focused fp) el) = data_path el"
  by (simp add: forEach_data_path_def mark_focused_def)

lemma focused_after_mark:
  "data_path el = Some p \<Longrightarrow>
     ''focused'' \<in> set (classList (forEach_data_path (mark_focused fp) el)) \<longleftrightarrow> p \<in> fp"
  by (simp add: forEach_data_path_def mark_focused_def classList_toggle_member or_empty_def)

lemma focus_class_after_mark:
  "focus_class \<in> set (classList (forEach_data_path (mark_focused fp) el)) \<longleftrightarrow>
     focus_class \<in> set (classList el)"
  by (simp add: forEach_data_path_def mark_focused_def classList_toggle_other focus_class_not_focused)

lemma mark_idem:
  "forEach_data_path (mark_focused fp) (forEach_data_path (mark_focused fp) el) =
     forEach_data_path (mark_focused fp) el"
  by (simp add: forEach_data_path_def mark_focused_def classList_toggle_idem)

lemma body_updateFocusStyles:
  "body (doc (updateFocusStyles st)) =
     forEach_data_path (mark_focused (focusedPaths st))
       ((body (doc st))\<lparr>classList :=
          classList_toggle focus_class (enableFocus (settings st)) (classList (body (doc st)))\<rparr>)"
  by (simp add: updateFocusStyles_def Let_def)

lemma elements_updateFocusStyles:
  "elements (doc (updateFocusStyles st)) =
     map (forEach_data_path (mark_focused (focusedPaths st))) (elements (doc st))"
  by (simp add: updateFocusStyles_def Let_def)

text \<open>
  C4. After \<^verbatim>\<open>updateFocusStyles\<close> the focus-mode class is on the body if and only if
  \<^verbatim>\<open>enableFocus\<close> is set, and every element with a \<^verbatim>\<open>data-path\<close> attribute carries
  the class \<^verbatim>\<open>focused\<close> if and only if its path is in \<^verbatim>\<open>focusedPaths\<close>. The
  attributes themselves are left as they were.
\<close>

theorem updateFocusStyles_classes:
  "(focus_class \<in> set (classList (body (doc (updateFocusStyles st)))) \<longleftrightarrow>
      enableFocus (settings st))
   \<and> map data_path (elements (doc (updateFocusStyles st))) = map data_path (elements (doc st))
   \<and> data_path (body (doc (updateFocusStyles st))) = data_path (body (doc st))
   \<and> (\<forall>el \<in> insert (body (doc (updateFocusStyles st))) (set (elements (doc (updateFocusStyles st)))).
         \<forall>p. data_path el = Some p \<longrightarrow>
           (''focused'' \<in> set (classList el) \<longleftrightarrow> p \<in> focusedPaths st))"
proof (intro conjI ballI allI impI)
  show "focus_class \<in> set (classList (body (doc (updateFocusStyles st)))) \<longleftrightarrow>
      enableFocus (settings st)"
    by (simp add: body_updateFocusStyles focus_class_after_mark classList_toggle_member)
  show "map data_path (elements (doc (updateFocusStyles st))) = map data_path (elements (doc st))"
    by (simp add: elements_updateFocusStyles data_path_mark)
  show "data_path (body (doc (updateFocusStyles st))) = data_path (body (doc st))"
    by (simp add: body_updateFocusStyles data_path_mark)
next
  fix el p
  assume el: "el \<in> insert (body (doc (updateFocusStyles st))) (set (elements (doc (updateFocusStyles st))))"
    and p: "data_path el = Some p"
  from el obtain el0 where el0: "el = forEach_data_path (mark_focused (focusedPaths st)) el0"
    by (auto simp: body_updateFocusStyles elements_updateFocusStyles)
  with p have "data_path el0 = Some p" by (simp add: data_path_mark)
  then show "''focused'' \<in> set (classList el) \<longleftrightarrow> p \<in> focusedPaths st"
    unfolding el0 by (rule focused_after_mark)
qed

theorem updateFocusStyles_classes_witness:
  "\<lparr>data_path = Some ''A'', classList = [''nav-folder'', ''focused'']\<rparr>
      \<in> insert (body (doc (updateFocusStyles state1))) (set (elements (doc (updateFocusStyles state1))))
   \<and> ''A'' \<in> focusedPaths state1
   \<and> \<lparr>data_path = Some ''Z'', classList = []\<rparr>
      \<in> insert (body (doc (updateFocusStyles state1))) (set (elements (doc (updateFocusStyles state1))))
   \<and> ''Z'' \<notin> focusedPaths state1
   \<and> enableFocus (settings state1)
   \<and> focus_class \<in> set (classList (body (doc (updateFocusStyles state1))))"
proof -
  note cls = updateFocusStyles_classes [of state1]
  have els: "elements (doc (updateFocusStyles state1)) =
      [\<lparr>data_path = Some ''A'', classList = [''nav-folder'', ''focused'']\<rparr>,
       \<lparr>data_path = Some ''Z'', classList = []\<rparr>,
       \<lparr>data_path = None, classList = [''focused'']\<rparr>]"
    by (simp add: elements_updateFocusStyles state1_def page1_def page0_def forEach_data_path_def
        mark_focused_def classList_toggle_def classList_remove_def or_empty_def)
  have A: "\<lparr>data_path = Some ''A'', classList = [''nav-folder'', ''focused'']\<rparr>
      \<in> insert (body (doc (updateFocusStyles state1))) (set (elements (doc (updateFocusStyles state1))))"
    and Z: "\<lparr>data_path = Some ''Z'', classList = []\<rparr>
      \<in> insert (body (doc (updateFocusStyles state1))) (set (elements (doc (updateFocusStyles state1))))"
    by (simp_all add: els)
  from cls have marked:
    "\<forall>el \<in> insert (body (doc (updateFocusStyles state1))) (set (elements (doc (updateFocusStyles state1)))).
       \<forall>p. data_path el = Some p \<longrightarrow>
         (''focused'' \<in> set (classList el) \<longleftrightarrow> p \<in> focusedPaths state1)"
    by (elim conjE)
  from bspec [OF marked A] have inA: "''A'' \<in> focusedPaths state1" by simp
  from bspec [OF marked Z] have outZ: "''Z'' \<notin> focusedPaths state1" by simp
  have en: "enableFocus (settings state1)"
    by (simp add: state1_def DEFAULT_SETTINGS_def)
  with cls have "focus_class \<in> set (classList (body (doc (updateFocusStyles state1))))"
    by blast
  with A Z inA outZ en show ?thesis by blast
qed

text \<open>
  C7. \<^verbatim>\<open>updateFocusStyles\<close> is idempotent: a second run in a row changes nothing.
\<close>

theorem updateFocusStyles_idempotent:
  "updateFocusStyles (updateFocusStyles st) = updateFocusStyles st"
proof -
  let ?f = "forEach_data_path (mark_focused (focusedPaths st))"
  let ?t = "classList_toggle focus_class (enableFocus (settings st))"
  have body_again: "?f ((?f (b\<lparr>classList := ?t (classList b)\<rparr>))
          \<lparr>classList := ?t (classList (?f (b\<lparr>classList := ?t (classList b)\<rparr>)))\<rparr>) =
        ?f (b\<lparr>classList := ?t (classList b)\<rparr>)" for b
    using classList_toggle_absorb [OF focus_class_not_focused]
    by (simp add: forEach_data_path_def mark_focused_def classList_toggle_idem)
  have "doc (updateFocusStyles (updateFocusStyles st)) = doc (updateFocusStyles st)"
    using body_again [of "body (doc st)"]
    by (simp add: updateFocusStyles_def Let_def mark_idem comp_def)
  then show ?thesis
    by (simp add: updateFocusStyles_def Let_def)
qed


theorem updateFocusStyles_idempotent_witness:
  "elements (doc (updateFocusStyles state1)) \<noteq> elements (doc state1)
   \<and> updateFocusStyles (updateFocusStyles state1) = updateFocusStyles state1"
proof -
  have "elements (doc (updateFocusStyles state1)) \<noteq> elements (doc state1)"
    by (simp add: elements_updateFocusStyles state1_def page1_def page0_def forEach_data_path_def
        mark_focused_def classList_toggle_def classList_remove_def or_empty_def)
  with updateFocusStyles_idempotent [of state1] show ?thesis by simp
qed

section \<open>The depth style sheet\<close>

lemma fold_append_rules: "fold (\<lambda>i acc. acc @ f i) xs acc0 = acc0 @ concat (map f xs)"
  by (induction xs arbitrary: acc0) simp_all

lemma stylesheet_updateBaseStyles:
  "stylesheet (updateBaseStyles st) = concat (map (depth_rule (settings st)) [0 ..< maxLevels])"
  by (simp add: stylesheet_def updateBaseStyles_def Let_def fold_append_rules)

lemma depth_rule_colors:
  "colors s \<noteq> [] \<Longrightarrow>
     depth_rule s i =
       css_rule (nested_selector i)
         (border_declaration (lineStyle_text (lineStyle s)) (colors s ! (i mod length (colors s))))"
  by (simp add: depth_rule_def Let_def js_rem_def js_index_def template_text_def js_repeat_def
      css_rule_def nested_selector_def border_declaration_def)

lemma depth_rule_no_colors:
  "colors s = [] \<Longrightarrow>
     depth_rule s i =
       css_rule (nested_selector i) (border_declaration (lineStyle_text (lineStyle s)) ''undefined'')"
  by (simp add: depth_rule_def Let_def js_rem_def js_index_def template_text_def js_repeat_def
      css_rule_def nested_selector_def border_declaration_def)

lemma levels: "[0 ..< maxLevels] = [0, 1, 2, 3, 4, 5, 6, 7, 8, 9]"
  by (simp add: maxLevels_def upt_rec)

text \<open>
  C3. With a non-empty colour list the style sheet is one rule for each depth \<open>i\<close>
  from 0 up to, but not including, 10. The selector of rule \<open>i\<close> is the child-container
  fragment repeated \<open>i\<close> times in front of the base child-container selector, and its
  declaration uses the line style and the colour at index \<open>i mod length colors\<close>. With
  the palette \<^verbatim>\<open>#111\<close>, \<^verbatim>\<open>#222\<close> the rules of even depth name the first colour and
  the rules of odd depth the second.
\<close>

theorem updateBaseStyles_depth_rules:
  assumes "colors (settings st) \<noteq> []"
  shows "stylesheet (updateBaseStyles st) =
           concat (map (\<lambda>i. css_rule (nested_selector i)
                     (border_declaration (lineStyle_text (lineStyle (settings st)))
                        (colors (settings st) ! (i mod length (colors (settings st))))))
             [0 ..< 10])"
proof -
  have "depth_rule (settings st) =
          (\<lambda>i. css_rule (nested_selector i)
             (border_declaration (lineStyle_text (lineStyle (settings st)))
                (colors (settings st) ! (i mod length (colors (settings st))))))"
    using assms by (intro ext) (rule depth_rule_colors)
  then show ?thesis
    by (simp add: stylesheet_updateBaseStyles maxLevels_def)
qed

theorem updateBaseStyles_depth_rules_witness:
  "colors (settings state_two_colors) \<noteq> []
   \<and> stylesheet (updateBaseStyles state_two_colors) =
       css_rule (nested_selector 0) (border_declaration ''solid'' ''#111'')
       @ css_rule (nested_selector 1) (border_declaration ''solid'' ''#222'')
       @ css_rule (nested_selector 2) (border_declaration ''solid'' ''#111'')
       @ css_rule (nested_selector 3) (border_declaration ''solid'' ''#222'')
       @ css_rule (nested_selector 4) (border_declaration ''solid'' ''#111'')
       @ css_rule (nested_selector 5) (border_declaration ''solid'' ''#222'')
       @ css_rule (nested_selector 6) (border_declaration ''solid'' ''#111'')
       @ css_rule (nested_selector 7) (border_declaration ''solid'' ''#222'')
       @ css_rule (nested_selector 8) (border_declaration ''solid'' ''#111'')
       @ css_rule (nested_selector 9) (border_declaration ''solid'' ''#222'')"
proof -
  have s: "settings state_two_colors = DEFAULT_SETTINGS\<lparr>colors := [''#111'', ''#222'']\<rparr>"
    by (simp add: state_two_colors_def state0_def)
  have ne: "colors (settings state_two_colors) \<noteq> []"
    by (simp add: s)
  have ten: "[0 ..< 10] = [0, 1, 2, 3, 4, 5, 6, 7, 8, 9::nat]"
    using levels by (simp add: maxLevels_def)
  show ?thesis
    using ne updateBaseStyles_depth_rules [OF ne]
    unfolding ten by (simp add: s DEFAULT_SETTINGS_def numeral_2_eq_2 [symmetric])
qed

text \<open>
  C9. With an empty colour list \<^verbatim>\<open>updateBaseStyles\<close> still returns: the index is
  \<^verbatim>\<open>NaN\<close>, the colour read is \<^verbatim>\<open>undefined\<close>, and each of the ten rules has the text
  \<^verbatim>\<open>undefined\<close> where the colour belongs.
\<close>

theorem updateBaseStyles_no_colors:
  assumes "colors (settings st) = []"
  shows "stylesheet (updateBaseStyles st) =
           concat (map (\<lambda>i. css_rule (nested_selector i)
                     (border_declaration (lineStyle_text (lineStyle (settings st))) ''undefined''))
             [0 ..< 10])"
proof -
  have "depth_rule (settings st) =
          (\<lambda>i. css_rule (nested_selector i)
             (border_declaration (lineStyle_text (lineStyle (settings st))) ''undefined''))"
    using assms by (intro ext) (rule depth_rule_no_colors)
  then show ?thesis
    by (simp add: stylesheet_updateBaseStyles maxLevels_def)
qed

theorem updateBaseStyles_no_colors_witness:
  "colors (settings state_no_colors) = []
   \<and> stylesheet (updateBaseStyles state_no_colors) =
       concat (map (\<lambda>i. css_rule (nested_selector i) (border_declaration ''solid'' ''undefined''))
         [0 ..< 10])"
proof -
  have s: "settings state_no_colors = DEFAULT_SETTINGS\<lparr>colors := []\<rparr>"
    by (simp add: state_no_colors_def state0_def)
  have e: "colors (settings state_no_colors) = []"
    by (simp add: s)
  show ?thesis
    using e updateBaseStyles_no_colors [OF e] by (simp add: s DEFAULT_SETTINGS_def)
qed

text \<open>
  C8. The style sheet is determined by the settings: two runs of \<^verbatim>\<open>updateBaseStyles\<close>
  under the same settings give the same text, whatever the rest of the state is.
\<close>

theorem updateBaseStyles_deterministic:
  assumes "settings st1 = settings st2"
  shows "stylesheet (updateBaseStyles st1) = stylesheet (updateBaseStyles st2)"
  using assms by (simp add: stylesheet_updateBaseStyles)

theorem updateBaseStyles_deterministic_witness:
  "settings state0 = settings (state1\<lparr>styleElement := 5\<rparr>)
   \<and> state0 \<noteq> state1\<lparr>styleElement := 5\<rparr>
   \<and> stylesheet (updateBaseStyles state0) = stylesheet (updateBaseStyles (state1\<lparr>styleElement := 5\<rparr>))"
proof -
  have s: "settings state0 = settings (state1\<lparr>styleElement := 5\<rparr>)"
    by (simp add: state0_def state1_def)
  have d: "state0 \<noteq> state1\<lparr>styleElement := 5\<rparr>"
  proof
    assume "state0 = state1\<lparr>styleElement := 5\<rparr>"
    then have "styleElement state0 = styleElement (state1\<lparr>styleElement := 5\<rparr>)"
      by (rule arg_cong)
    then show False by (simp add: state0_def)
  qed
  from s d updateBaseStyles_deterministic [OF s] show ?thesis by blast
qed

lemma body_style_updateBaseStyles:
  "body_style (doc (updateBaseStyles st)) =
     setProperty unfocused_property (unfocusedColor (settings st)) (body_style (doc st))"
  by (simp add: updateBaseStyles_def Let_def)

lemma stylesheet_state0:
  "stylesheet (updateBaseStyles state0) =
     concat (map (depth_rule DEFAULT_SETTINGS) [0, 1, 2, 3, 4, 5, 6, 7, 8, 9])"
  by (simp add: stylesheet_updateBaseStyles levels state0_def)

text \<open>
  C2, as stated, fails. \<^verbatim>\<open>updateBaseStyles\<close> is not free of effects beyond the text: on
  the empty page with the default settings it puts the custom property for the
  unfocused colour on the inline style of the body. And the text it assigns holds no
  declaration of that property: the property's name does not occur in it.
\<close>

theorem updateBaseStyles_pure_counterexample:
  "body_style (doc state0) unfocused_property = None
   \<and> body_style (doc (updateBaseStyles state0)) unfocused_property = Some ''#999999''
   \<and> \<not> sublist unfocused_property (stylesheet (updateBaseStyles state0))"
proof (intro conjI)
  have "CHR ''u'' \<notin> set (depth_rule DEFAULT_SETTINGS i)" for i
    using mod_less_divisor [of 5 i]
    by (auto simp: depth_rule_def Let_def js_rem_def js_index_def template_text_def js_repeat_def
        newline_def DEFAULT_SETTINGS_def nth_Cons' simp del: mod_less_divisor)
  then have "CHR ''u'' \<notin> set (stylesheet (updateBaseStyles state0))"
    by (simp add: stylesheet_state0)
  moreover have "CHR ''u'' \<in> set unfocused_property"
    by (simp add: unfocused_property_def)
  ultimately show "\<not> sublist unfocused_property (stylesheet (updateBaseStyles state0))"
    using set_mono_sublist [of unfocused_property "stylesheet (updateBaseStyles state0)"] by blast
  show "body_style (doc state0) unfocused_property = None"
    by (simp add: state0_def page0_def)
  show "body_style (doc (updateBaseStyles state0)) unfocused_property = Some ''#999999''"
    by (simp add: body_style_updateBaseStyles setProperty_def state0_def DEFAULT_SETTINGS_def)
qed

text \<open>
  C2, amended. \<^verbatim>\<open>updateBaseStyles\<close> has two effects. The text of the style element
  becomes the concatenation of the ten depth rules, and nothing more. The custom
  property for the unfocused colour is set on the inline style of the body, outside
  that text. The other nodes, the id of the style element, the head, the body's
  element, the other elements and the plugin's fields stay as they were.
\<close>

theorem updateBaseStyles_effects:
  "stylesheet (updateBaseStyles st) = concat (map (depth_rule (settings st)) [0 ..< 10])
   \<and> body_style (doc (updateBaseStyles st)) =
       setProperty unfocused_property (unfocusedColor (settings st)) (body_style (doc st))
   \<and> (\<forall>r. r \<noteq> styleElement st \<longrightarrow> nodes (doc (updateBaseStyles st)) r = nodes (doc st) r)
   \<and> elem_id (nodes (doc (updateBaseStyles st)) (styleElement st)) =
       elem_id (nodes (doc st) (styleElement st))
   \<and> head (doc (updateBaseStyles st)) = head (doc st)
   \<and> body (doc (updateBaseStyles st)) = body (doc st)
   \<and> elements (doc (updateBaseStyles st)) = elements (doc st)
   \<and> focusedPaths (updateBaseStyles st) = focusedPaths st
   \<and> settings (updateBaseStyles st) = settings st
   \<and> styleElement (updateBaseStyles st) = styleElement st"
proof (intro conjI allI impI)
  show "stylesheet (updateBaseStyles st) = concat (map (depth_rule (settings st)) [0 ..< 10])"
    by (simp add: stylesheet_updateBaseStyles maxLevels_def)
  show "body_style (doc (updateBaseStyles st)) =
       setProperty unfocused_property (unfocusedColor (settings st)) (body_style (doc st))"
    by (rule body_style_updateBaseStyles)
qed (simp_all add: updateBaseStyles_def Let_def)

theorem updateBaseStyles_effects_witness:
  "(1::nat) \<noteq> styleElement state0
   \<and> nodes (doc (updateBaseStyles state0)) 1 = nodes (doc state0) 1
   \<and> body_style (doc (updateBaseStyles state0)) = [unfocused_property \<mapsto> ''#999999'']
   \<and> stylesheet (updateBaseStyles state0) = concat (map (depth_rule DEFAULT_SETTINGS) [0 ..< 10])"
proof -
  note eff = updateBaseStyles_effects [of state0]
  have r: "(1::nat) \<noteq> styleElement state0" by (simp add: state0_def)
  with eff have "nodes (doc (updateBaseStyles state0)) 1 = nodes (doc state0) 1" by blast
  moreover from eff have "body_style (doc (updateBaseStyles state0)) = [unfocused_property \<mapsto> ''#999999'']"
    by (simp add: setProperty_def state0_def page0_def DEFAULT_SETTINGS_def)
  moreover from eff have "stylesheet (updateBaseStyles state0) = concat (map (depth_rule DEFAULT_SETTINGS) [0 ..< 10])"
    by (simp add: state0_def)
  ultimately show ?thesis using r by blast
qed

section \<open>Unloading\<close>

lemma doc_updateFocusedPaths_body_style:
  "body_style (doc (updateFocusedPaths openLeaves st)) = body_style (doc st)"
  by (simp add: updateFocusedPaths_def updateFocusStyles_def Let_def)

lemma onunload_body_style: "body_style (doc (onunload st)) = body_style (doc st)"
  by (simp add: onunload_def Let_def)

lemma onunload_elements: "elements (doc (onunload st)) = elements (doc st)"
  by (simp add: onunload_def Let_def)

text \<open>
  C5, as stated, fails: \<^verbatim>\<open>onunload\<close> does not bring the page back to what it was
  before \<^verbatim>\<open>onload\<close>. On the empty page the custom property set during activation
  is still on the body afterwards; and an element that received the class
  \<^verbatim>\<open>focused\<close> during activation still has it.
\<close>

theorem onunload_restores_counterexample:
  "body_style page0 unfocused_property = None
   \<and> body_style (doc (onunload (onload None [] page0))) unfocused_property = Some ''#999999''
   \<and> elements page1 ! 0 = \<lparr>data_path = Some ''A'', classList = [''nav-folder'']\<rparr>
   \<and> elements (doc (onunload (onload None [leaf_A_B] page1))) ! 0 =
       \<lparr>data_path = Some ''A'', classList = [''nav-folder'', ''focused'']\<rparr>"
proof (intro conjI)
  show "body_style page0 unfocused_property = None"
    by (simp add: page0_def)
  show "body_style (doc (onunload (onload None [] page0))) unfocused_property = Some ''#999999''"
    by (simp add: onunload_body_style onload_def Let_def doc_updateFocusedPaths_body_style
        body_style_updateBaseStyles setProperty_def loadSettings_def DEFAULT_SETTINGS_def)
  show "elements page1 ! 0 = \<lparr>data_path = Some ''A'', classList = [''nav-folder'']\<rparr>"
    by (simp add: page1_def)
  have fp: "add_leaf leaf_A_B {} = {''A/B'', ''A''}"
    by (simp add: leaf_A_B_def add_leaf_file proper_ancestor_prefixes_def js_split_def)
  show "elements (doc (onunload (onload None [leaf_A_B] page1))) ! 0 =
       \<lparr>data_path = Some ''A'', classList = [''nav-folder'', ''focused'']\<rparr>"
    by (simp add: onunload_elements onload_def updateFocusedPaths_def Let_def
        elements_updateFocusStyles fp updateBaseStyles_def page1_def page0_def
        forEach_data_path_def mark_focused_def classList_toggle_def or_empty_def)
qed

text \<open>
  C5, amended. After \<^verbatim>\<open>onunload\<close>, whatever the state was, the plugin's style element
  is no longer a child of the head, the other children of the head are the ones from
  before in their order, and the focus-mode class is not on the body.
\<close>

theorem onunload_cleanup:
  "styleElement st \<notin> set (head (doc (onunload st)))
   \<and> focus_class \<notin> set (classList (body (doc (onunload st))))
   \<and> head (doc (onunload st)) = removeAll (styleElement st) (head (doc st))"
  by (simp add: onunload_def Let_def classList_remove_def)

theorem onunload_cleanup_witness:
  "styleElement (onload None [] page0) \<in> set (head (doc (onload None [] page0)))
   \<and> focus_class \<in> set (classList (body (doc (onload None [] page0))))
   \<and> styleElement (onload None [] page0) \<notin> set (head (doc (onunload (onload None [] page0))))
   \<and> focus_class \<notin> set (classList (body (doc (onunload (onload None [] page0)))))"
proof -
  have "styleElement (onload None [] page0) \<in> set (head (doc (onload None [] page0)))"
    by (simp add: onload_def Let_def updateFocusedPaths_def updateFocusStyles_def
        updateBaseStyles_def page0_def)
  moreover have "focus_class \<in> set (classList (body (doc (onload None [] page0))))"
    by (simp add: onload_def Let_def updateFocusedPaths_def body_updateFocusStyles
        focus_class_after_mark classList_toggle_member updateBaseStyles_def loadSettings_def
        DEFAULT_SETTINGS_def)
  ultimately show ?thesis
    using onunload_cleanup [of "onload None [] page0"] by blast
qed

end
